theory Spec2Isabelle
  imports Complex_Main
begin

section \<open>JavaScript numbers\<close>

text \<open>
  A JavaScript Number is an IEEE 754 binary64 value. Every finite double is a rational
  number, so a finite value is carried by its exact rational value, and the special
  values are kept apart: \<open>Fin 0\<close> is \<open>+0\<close> and \<open>NegZero\<close> is \<open>-0\<close>. Not every rational is
  a double, so a statement about all \<open>Fin q\<close> covers every finite double and more.
\<close>

datatype number = NaN | PosInf | NegInf | NegZero | Fin rat

text \<open>
  The relational operators (ECMAScript IsLessThan on two Numbers): a comparison with
  \<open>NaN\<close> is false, \<open>-0\<close> and \<open>+0\<close> compare equal, the infinities are the extremes.
\<close>

fun js_lt :: "number \<Rightarrow> number \<Rightarrow> bool" where
  "js_lt NaN _ = False"
| "js_lt _ NaN = False"
| "js_lt PosInf _ = False"
| "js_lt _ NegInf = False"
| "js_lt NegInf _ = True"
| "js_lt _ PosInf = True"
| "js_lt NegZero NegZero = False"
| "js_lt NegZero (Fin b) = (0 < b)"
| "js_lt (Fin a) NegZero = (a < 0)"
| "js_lt (Fin a) (Fin b) = (a < b)"

definition js_gt :: "number \<Rightarrow> number \<Rightarrow> bool" where
  \<comment> \<open>\<open>a > b\<close> is evaluated as \<open>b < a\<close>\<close>
  "js_gt a b = js_lt b a"

definition js_ge :: "number \<Rightarrow> number \<Rightarrow> bool" where
  \<comment> \<open>\<open>a >= b\<close> is false when \<open>a < b\<close> is true or undefined (an operand is \<open>NaN\<close>)\<close>
  "js_ge a b = (a \<noteq> NaN \<and> b \<noteq> NaN \<and> \<not> js_lt a b)"

subsection \<open>Rounding to binary64 and division\<close>

text \<open>
  \<open>bit_length n\<close> is the number of binary digits of a positive integer, and
  \<open>floor_log2 q\<close> the integer \<open>e\<close> with \<open>2 ^ e \<le> q < 2 ^ (e + 1)\<close> for a positive \<open>q\<close>.
\<close>

function bit_length :: "int \<Rightarrow> int" where
  "bit_length n = (if n \<le> 0 then 0 else 1 + bit_length (n div 2))"
  by pat_completeness auto
termination
  by (relation "measure nat") auto

declare bit_length.simps [simp del]

definition floor_log2 :: "rat \<Rightarrow> int" where
  "floor_log2 q =
    (if 1 \<le> q then bit_length \<lfloor>q\<rfloor> - 1 else - bit_length (\<lceil>1 / q\<rceil> - 1))"

definition zpow :: "int \<Rightarrow> int \<Rightarrow> rat" where
  \<comment> \<open>an integer base to an integer exponent\<close>
  "zpow b i = (if 0 \<le> i then of_int (b ^ nat i) else 1 / of_int (b ^ nat (- i)))"

definition round_half_even :: "rat \<Rightarrow> int" where
  "round_half_even x =
    (let f = \<lfloor>x\<rfloor>; d = x - of_int f
     in if d < 1 / 2 then f else if 1 / 2 < d then f + 1 else if even f then f else f + 1)"

text \<open>
  Round to nearest, ties to even, with a 53-bit significand; below \<open>2 ^ - 1022\<close> the
  spacing stays \<open>2 ^ - 1074\<close> (subnormal numbers). The exponent is not bounded above
  here: \<open>to_double\<close> turns a result of \<open>2 ^ 1024\<close> or more into an infinity.
\<close>

definition nearest_double :: "rat \<Rightarrow> rat" where
  "nearest_double q =
    (let e = max (floor_log2 q) (- 1022) - 52
     in of_int (round_half_even (q / zpow 2 e)) * zpow 2 e)"

definition infinity :: "bool \<Rightarrow> number" where
  "infinity negative = (if negative then NegInf else PosInf)"

definition zero :: "bool \<Rightarrow> number" where
  "zero negative = (if negative then NegZero else Fin 0)"

definition to_double :: "bool \<Rightarrow> rat \<Rightarrow> number" where
  \<comment> \<open>the double for a sign and an exact magnitude \<open>q \<ge> 0\<close>\<close>
  "to_double negative q =
    (let v = nearest_double q
     in if zpow 2 1024 \<le> v then infinity negative
        else if v = 0 then zero negative
        else Fin (if negative then - v else v))"

fun is_negative :: "number \<Rightarrow> bool" where
  "is_negative NaN = False"
| "is_negative PosInf = False"
| "is_negative NegInf = True"
| "is_negative NegZero = True"
| "is_negative (Fin q) = (q < 0)"

fun magnitude :: "number \<Rightarrow> rat option" where
  \<comment> \<open>the absolute value of a finite number, \<open>None\<close> for an infinity\<close>
  "magnitude (Fin q) = Some \<bar>q\<bar>"
| "magnitude NegZero = Some 0"
| "magnitude _ = None"

text \<open>
  The operator \<open>/\<close> on Numbers (IEEE 754 division): it never raises. A zero divisor
  gives an infinity, or \<open>NaN\<close> for \<open>0 / 0\<close>; the sign of the result is the product of the
  signs.
\<close>

definition js_div :: "number \<Rightarrow> number \<Rightarrow> number" where
  "js_div x y =
    (if x = NaN \<or> y = NaN then NaN
     else let negative = (is_negative x \<noteq> is_negative y)
          in case (magnitude x, magnitude y) of
               (None, None) \<Rightarrow> NaN
             | (None, Some b) \<Rightarrow> infinity negative
             | (Some a, None) \<Rightarrow> zero negative
             | (Some a, Some b) \<Rightarrow>
                 if b = 0 then (if a = 0 then NaN else infinity negative)
                 else to_double negative (a / b))"

subsection \<open>Numbers as strings\<close>

definition digit_char :: "int \<Rightarrow> char" where
  "digit_char d = ''0123456789'' ! nat d"

function digits_of :: "int \<Rightarrow> string" where
  \<comment> \<open>the decimal digits of a non-negative integer, without leading zeros\<close>
  "digits_of n =
    (if n < 10 then [digit_char n] else digits_of (n div 10) @ [digit_char (n mod 10)])"
  by pat_completeness auto
termination
  by (relation "measure nat") auto

declare digits_of.simps [simp del]

definition decimal_exponent :: "rat \<Rightarrow> int" where
  \<comment> \<open>the \<open>n\<close> with \<open>10 ^ (n - 1) \<le> q < 10 ^ n\<close>, for a positive \<open>q\<close>\<close>
  "decimal_exponent q =
    (if 1 \<le> q then int (length (digits_of \<lfloor>q\<rfloor>))
     else 1 - int (length (digits_of (\<lceil>1 / q\<rceil> - 1))))"

text \<open>
  Number::toString takes integers \<open>n\<close>, \<open>k\<close>, \<open>s\<close> with \<open>k \<ge> 1\<close>,
  \<open>10 ^ (k - 1) \<le> s < 10 ^ k\<close>, \<open>s * 10 ^ (n - k)\<close> rounding to the number, and \<open>k\<close> as
  small as possible; between two such \<open>s\<close> the one closer to the number, and the even
  one at equal distance. For each \<open>k\<close> from 1 on, only the two multiples of
  \<open>10 ^ (n - k)\<close> around \<open>q\<close> can round to \<open>q\<close>. Seventeen digits identify every double;
  for a rational that is no double the search ends at \<open>k = 17\<close> with the closer one.
\<close>

definition closest :: "rat \<Rightarrow> rat \<Rightarrow> int \<Rightarrow> int" where
  "closest q scale lo =
    (let below = q - of_int lo * scale; above = of_int (lo + 1) * scale - q
     in if below < above then lo else if above < below then lo + 1
        else if even lo then lo else lo + 1)"

definition normalise :: "int \<Rightarrow> int \<Rightarrow> int \<Rightarrow> int \<times> int \<times> int" where
  \<comment> \<open>\<open>s = 10 ^ k\<close> has \<open>k + 1\<close> digits: it is \<open>10 ^ (k - 1)\<close> one decade up\<close>
  "normalise n k s = (if s = 10 ^ nat k then (n + 1, k, 10 ^ nat (k - 1)) else (n, k, s))"

definition candidate :: "rat \<Rightarrow> int \<Rightarrow> (int \<times> int \<times> int) option" where
  "candidate q k =
    (let n = decimal_exponent q; scale = zpow 10 (n - k); lo = \<lfloor>q / scale\<rfloor>;
         ok_lo = (to_double False (of_int lo * scale) = Fin q);
         ok_hi = (to_double False (of_int (lo + 1) * scale) = Fin q)
     in if ok_lo \<and> ok_hi then Some (normalise n k (closest q scale lo))
        else if ok_lo then Some (normalise n k lo)
        else if ok_hi then Some (normalise n k (lo + 1))
        else None)"

function shortest_digits :: "rat \<Rightarrow> int \<Rightarrow> int \<times> int \<times> int" where
  "shortest_digits q k =
    (if 17 \<le> k then
       (let n = decimal_exponent q; scale = zpow 10 (n - k)
        in normalise n k (closest q scale \<lfloor>q / scale\<rfloor>))
     else case candidate q k of Some r \<Rightarrow> r | None \<Rightarrow> shortest_digits q (k + 1))"
  by pat_completeness auto
termination
  by (relation "measure (\<lambda>(q, k). nat (17 - k))") auto

declare shortest_digits.simps [simp del]

definition toString_positive :: "rat \<Rightarrow> string" where
  \<comment> \<open>Number::toString in radix 10, for a positive finite number\<close>
  "toString_positive q =
    (case shortest_digits q 1 of (n, k, s) \<Rightarrow>
       let ds = digits_of s
       in if - 5 \<le> n \<and> n \<le> 21 then
            (if k \<le> n then ds @ replicate (nat (n - k)) CHR ''0''
             else if 0 < n then take (nat n) ds @ ''.'' @ drop (nat n) ds
             else ''0.'' @ replicate (nat (- n)) CHR ''0'' @ ds)
          else
            (let e = n - 1; c = (if e < 0 then ''-'' else ''+''); es = digits_of \<bar>e\<bar>
             in if k = 1 then ds @ ''e'' @ c @ es
                else take 1 ds @ ''.'' @ drop 1 ds @ ''e'' @ c @ es))"

text \<open>
  Number.prototype.toFixed with \<open>f\<close> fraction digits (\<open>0 \<le> f \<le> 100\<close>; the program calls
  it with 2 only). A value that is not finite gives its name. From \<open>10 ^ 21\<close> on the
  result is that of Number::toString. Below, \<open>n\<close> is the integer closest to
  \<open>q * 10 ^ f\<close>, the larger one of two, and the point goes before its last \<open>f\<close> digits,
  after padding with zeros to \<open>f + 1\<close> digits.
\<close>

definition fixed_digits :: "rat \<Rightarrow> nat \<Rightarrow> string" where
  "fixed_digits q f =
    (if 10 ^ 21 \<le> q then toString_positive q
     else let n = \<lfloor>q * 10 ^ f + 1 / 2\<rfloor>; m = digits_of n
          in if f \<noteq> 0 then
               (let m' = (if length m \<le> f then replicate (f + 1 - length m) CHR ''0'' @ m
                          else m);
                    k = length m'
                in take (k - f) m' @ ''.'' @ drop (k - f) m')
             else m)"

fun toFixed :: "number \<Rightarrow> nat \<Rightarrow> string" where
  "toFixed NaN f = ''NaN''"
| "toFixed PosInf f = ''Infinity''"
| "toFixed NegInf f = ''-Infinity''"
| "toFixed NegZero f = fixed_digits 0 f"
| "toFixed (Fin q) f = (if q < 0 then ''-'' @ fixed_digits (- q) f else fixed_digits q f)"

section \<open>Thresholds\<close>

record Thresholds =
  SUSPICIOUS :: number
  LIKELY :: number
  OBVIOUS :: number
  ABSURD :: number
  LEGENDARY :: number

definition THRESHOLDS :: Thresholds where
  "THRESHOLDS = \<lparr>SUSPICIOUS = Fin 1000, LIKELY = Fin 5000, OBVIOUS = Fin 10000,
     ABSURD = Fin 25000, LEGENDARY = Fin 50000\<rparr>"

section \<open>Ratio analysis\<close>

record RatioAnalysis =
  following :: number
  followers :: number
  ratio :: string
  verdict :: string
  description :: string
  recommendation :: string
  shame :: bool
  timestamp :: string

text \<open>
  \<open>followers > 0 ? following / followers : following\<close>. The conditional evaluates one
  of its two operands only; \<open>ratio_operand\<close> says which one, with the operands of the
  division when it is the first, and \<open>ratio_value\<close> evaluates it.
\<close>

datatype operand = Division number number | Plain number

definition ratio_operand :: "number \<Rightarrow> number \<Rightarrow> operand" where
  "ratio_operand following followers =
    (if js_gt followers (Fin 0) then Division following followers else Plain following)"
  for following followers

fun eval_operand :: "operand \<Rightarrow> number" where
  "eval_operand (Division a b) = js_div a b"
| "eval_operand (Plain a) = a"

definition ratio_value :: "number \<Rightarrow> number \<Rightarrow> number" where
  "ratio_value following followers = eval_operand (ratio_operand following followers)"
  for following followers

text \<open>
  The first argument is the value of \<open>new Date().toISOString()\<close> at the call, the only
  thing \<open>analyzeRatio\<close> reads from its environment.
\<close>

definition analyzeRatio :: "string \<Rightarrow> number \<Rightarrow> number \<Rightarrow> RatioAnalysis" where
  "analyzeRatio now following followers =
    (let ratio = ratio_value following followers;
         (verdict, description, recommendation) =
           (if js_lt following (SUSPICIOUS THRESHOLDS) then
              (''NORMAL'',
               ''A regular human being. Refreshing.'',
               ''None needed. You are doing fine.'')
            else if js_lt following (LIKELY THRESHOLDS) then
              (''SUSPICIOUS'',
               ''Either very social or very desperate.'',
               ''Consider touching grass.'')
            else if js_lt following (OBVIOUS THRESHOLDS) then
              (''LIKELY_MASS_FOLLOWER'',
               ''You know what you did.'',
               ''The unfollow button exists. Use it.'')
            else if js_lt following (ABSURD THRESHOLDS) then
              (''MASS_FOLLOWER'',
               ''Quantity over quality, embodied.'',
               ''This is a cry for help, isn't it?'')
            else if js_lt following (LEGENDARY THRESHOLDS) then
              (''EGREGIOUS_MASS_FOLLOWER'',
               ''At what cost? FOR WHAT?'',
               ''Log off. Forever. Please.'')
            else
              (''LEGENDARY_MASS_FOLLOWER'',
               ''You've achieved something. Not something good, but something.'',
               ''Frame this. Put it on your wall. Tell your grandchildren.''))
     in \<lparr>following = following,
         followers = followers,
         ratio = toFixed ratio 2,
         verdict = verdict,
         description = description,
         recommendation = recommendation,
         shame = js_ge following (SUSPICIOUS THRESHOLDS),
         timestamp = now\<rparr>)"
  for following followers

section \<open>Follow-back analysis\<close>

record FollowBackAnalysis =
  verdict :: string
  description :: string
  recommendation :: string

definition analyzeFollowBack :: "bool \<Rightarrow> number \<Rightarrow> bool \<Rightarrow> bool \<Rightarrow> FollowBackAnalysis" where
  "analyzeFollowBack theyFollowYou theirFollowing youFollowedBack theyStillFollowYou =
    (let genuine =
           \<lparr>verdict = ''SEEMS_GENUINE'',
            description = ''Possibly a real connection. Rare but beautiful.'',
            recommendation = ''Cherish this. It's uncommon.''\<rparr>
     in if js_gt theirFollowing (SUSPICIOUS THRESHOLDS) then
          (if theyFollowYou \<and> \<not> youFollowedBack \<and> \<not> theyStillFollowYou then
             \<lparr>verdict = ''CLASSIC_FOLLOW_UNFOLLOW'',
              description = ''They followed you, you didn't follow back, they unfollowed. Tale as old as time.'',
              recommendation = ''You dodged a bullet. Their feed is chaos anyway.''\<rparr>
           else if theyFollowYou \<and> youFollowedBack then
             \<lparr>verdict = ''THEY_GOT_YOU'',
              description = ''You fell for it. It's okay, we all have.'',
              recommendation = ''Consider unfollowing. They won't notice.''\<rparr>
           else genuine)
        else genuine)"

text \<open>
  The follow-back verdict as the specification words it, in three rules, to be compared
  with \<open>analyzeFollowBack\<close>.
\<close>

definition followBack_reference :: "bool \<Rightarrow> number \<Rightarrow> bool \<Rightarrow> bool \<Rightarrow> string" where
  "followBack_reference theyFollowYou theirFollowing youFollowedBack theyStillFollowYou =
    (if js_gt theirFollowing (Fin 1000) \<and> theyFollowYou \<and> \<not> youFollowedBack
        \<and> \<not> theyStillFollowYou
     then ''CLASSIC_FOLLOW_UNFOLLOW''
     else if js_gt theirFollowing (Fin 1000) \<and> theyFollowYou \<and> youFollowedBack
     then ''THEY_GOT_YOU''
     else ''SEEMS_GENUINE'')"

section \<open>Messages\<close>

text \<open>
  \<open>generateMessage\<close> reads two things from its environment, which are arguments here:
  \<open>toLocaleString\<close>, the rendering of a Number in the default locale of the host, and
  \<open>index\<close>, the value of \<open>Math.floor(Math.random() * messages.length)\<close>. Reading an
  array beyond its end gives \<open>undefined\<close>, which is \<open>None\<close>.
\<close>

definition generateMessage :: "(number \<Rightarrow> string) \<Rightarrow> nat \<Rightarrow> number \<Rightarrow> string option" where
  "generateMessage toLocaleString index following =
    (if js_lt following (SUSPICIOUS THRESHOLDS) then
       Some ''You seem normal. This tool isn't for you.''
     else
       let messages =
             [''Following '' @ toLocaleString following
                @ '' accounts? That's not networking, that's hoarding.'',
              toLocaleString following @ '' follows. Do you even remember who they are?'',
              ''With '' @ toLocaleString following @ '' follows, your feed must be pure noise.'',
              toLocaleString following @ ''. That's not a following list, that's a phone book.'',
              ''Imagine clicking follow '' @ toLocaleString following
                @ '' times. The dedication to mediocrity.'']
       in if index < length messages then Some (messages ! index) else None)"
  for following

section \<open>The wall of shame\<close>

definition WALL_OF_SHAME :: "string list" where
  "WALL_OF_SHAME = []"

definition isOnWallOfShame :: "string \<Rightarrow> bool" where
  "isOnWallOfShame username = False"

section \<open>The command line\<close>

text \<open>
  What the command-line block takes from the runtime: the conversion \<open>Number\<close> of an
  argument string, \<open>toLocaleString\<close>, the time of the call as an ISO string, and the
  index drawn for the message.
\<close>

record runtime =
  Number :: "string \<Rightarrow> number"
  toLocaleString :: "number \<Rightarrow> string"
  now :: string
  random_index :: nat

definition console_log :: "string option \<Rightarrow> string" where
  \<comment> \<open>the line printed for a value that is a string or \<open>undefined\<close>\<close>
  "console_log v = (case v of Some s \<Rightarrow> s | None \<Rightarrow> ''undefined'')"

text \<open>
  The block run when the module is the main one. \<open>args\<close> is \<open>process.argv.slice(2)\<close>;
  the result is the lines written to standard output, one for each \<open>console.log\<close>, and
  the exit status: \<open>process.exit(1)\<close> ends the process after the usage text, and a
  process that runs to the end of the module exits with status 0.
\<close>

definition cli :: "runtime \<Rightarrow> string list \<Rightarrow> string list \<times> int" where
  "cli rt args =
    (if length args < 2 then
       ([''Usage: node index.js <following> <followers>'',
         ''Example: node index.js 47832 523'',
         '''',
         ''Or just accept that if you're running this, you already know.''], 1)
     else
       let following = Number rt (args ! 0);
           followers = Number rt (args ! 1);
           result = analyzeRatio (now rt) following followers;
           report =
             ['''',
              replicate 50 CHR ''='',
              ''MASS FOLLOW ANALYSIS REPORT'',
              replicate 50 CHR ''='',
              '''',
              ''Following: '' @ toLocaleString rt following,
              ''Followers: '' @ toLocaleString rt followers,
              ''Ratio: '' @ ratio result,
              '''',
              ''Verdict: '' @ RatioAnalysis.verdict result,
              RatioAnalysis.description result,
              '''',
              ''Recommendation: '' @ RatioAnalysis.recommendation result,
              '''',
              replicate 50 CHR ''='']
       in if shame result then
            (report @ ['''',
               console_log (generateMessage (toLocaleString rt) (random_index rt) following)], 0)
          else (report, 0))"

section \<open>Strings with two fraction digits\<close>

text \<open>
  A string has exactly two digits after the decimal point when it ends with a point and
  two digits, and has no other point.
\<close>

definition is_digit :: "char \<Rightarrow> bool" where
  "is_digit c = (c \<in> set ''0123456789'')"

definition two_fraction_digits :: "string \<Rightarrow> bool" where
  "two_fraction_digits s =
    (case rev s of
       d2 # d1 # p # rest \<Rightarrow>
         p = CHR ''.'' \<and> is_digit d1 \<and> is_digit d2 \<and> CHR ''.'' \<notin> set rest
     | _ \<Rightarrow> False)"

section \<open>Properties\<close>

subsection \<open>Fields of the analysis\<close>

lemma thresholds [simp]:
  "SUSPICIOUS THRESHOLDS = Fin 1000" "LIKELY THRESHOLDS = Fin 5000"
  "OBVIOUS THRESHOLDS = Fin 10000" "ABSURD THRESHOLDS = Fin 25000"
  "LEGENDARY THRESHOLDS = Fin 50000"
  by (simp_all add: THRESHOLDS_def)

lemma verdict_analyzeRatio:
  fixes following followers :: number
  shows "RatioAnalysis.verdict (analyzeRatio ts following followers) =
    (if js_lt following (Fin 1000) then ''NORMAL''
     else if js_lt following (Fin 5000) then ''SUSPICIOUS''
     else if js_lt following (Fin 10000) then ''LIKELY_MASS_FOLLOWER''
     else if js_lt following (Fin 25000) then ''MASS_FOLLOWER''
     else if js_lt following (Fin 50000) then ''EGREGIOUS_MASS_FOLLOWER''
     else ''LEGENDARY_MASS_FOLLOWER'')"
  by (simp add: analyzeRatio_def Let_def)

lemma shame_analyzeRatio:
  fixes following followers :: number
  shows "shame (analyzeRatio ts following followers) = js_ge following (Fin 1000)"
  by (simp add: analyzeRatio_def Let_def split: prod.splits)

lemma ratio_analyzeRatio:
  fixes following followers :: number
  shows "ratio (analyzeRatio ts following followers) = toFixed (ratio_value following followers) 2"
  by (simp add: analyzeRatio_def Let_def split: prod.splits)

text \<open>
  Claim C1: for a finite following count \<open>x\<close> and any followers, the verdict of
  \<open>analyzeRatio\<close> is given by half-open intervals: below 1000 \<open>NORMAL\<close>, from 1000 and
  below 5000 \<open>SUSPICIOUS\<close>, from 5000 and below 10000 \<open>LIKELY_MASS_FOLLOWER\<close>, from 10000
  and below 25000 \<open>MASS_FOLLOWER\<close>, from 25000 and below 50000 \<open>EGREGIOUS_MASS_FOLLOWER\<close>,
  from 50000 on \<open>LEGENDARY_MASS_FOLLOWER\<close>; each boundary 1000, 5000, 10000, 25000, 50000
  has the higher verdict.
\<close>

theorem analyzeRatio_verdict_intervals:
  fixes followers :: number
  shows "RatioAnalysis.verdict (analyzeRatio ts (Fin x) followers) =
      (if x < 1000 then ''NORMAL''
       else if x < 5000 then ''SUSPICIOUS''
       else if x < 10000 then ''LIKELY_MASS_FOLLOWER''
       else if x < 25000 then ''MASS_FOLLOWER''
       else if x < 50000 then ''EGREGIOUS_MASS_FOLLOWER''
       else ''LEGENDARY_MASS_FOLLOWER'')
    \<and> RatioAnalysis.verdict (analyzeRatio ts (Fin 1000) followers) = ''SUSPICIOUS''
    \<and> RatioAnalysis.verdict (analyzeRatio ts (Fin 5000) followers) = ''LIKELY_MASS_FOLLOWER''
    \<and> RatioAnalysis.verdict (analyzeRatio ts (Fin 10000) followers) = ''MASS_FOLLOWER''
    \<and> RatioAnalysis.verdict (analyzeRatio ts (Fin 25000) followers) = ''EGREGIOUS_MASS_FOLLOWER''
    \<and> RatioAnalysis.verdict (analyzeRatio ts (Fin 50000) followers) = ''LEGENDARY_MASS_FOLLOWER''"
  by (simp add: verdict_analyzeRatio)

text \<open>The verdicts just below each boundary, at 50000, and for 47832 following.\<close>

theorem analyzeRatio_verdict_intervals_witness:
  "RatioAnalysis.verdict (analyzeRatio [] (Fin 999) (Fin 10)) = ''NORMAL''
   \<and> RatioAnalysis.verdict (analyzeRatio [] (Fin 4999) (Fin 10)) = ''SUSPICIOUS''
   \<and> RatioAnalysis.verdict (analyzeRatio [] (Fin 9999) (Fin 10)) = ''LIKELY_MASS_FOLLOWER''
   \<and> RatioAnalysis.verdict (analyzeRatio [] (Fin 24999) (Fin 10)) = ''MASS_FOLLOWER''
   \<and> RatioAnalysis.verdict (analyzeRatio [] (Fin 49999) (Fin 10)) = ''EGREGIOUS_MASS_FOLLOWER''
   \<and> RatioAnalysis.verdict (analyzeRatio [] (Fin 47832) (Fin 523)) = ''EGREGIOUS_MASS_FOLLOWER''
   \<and> RatioAnalysis.verdict (analyzeRatio [] (Fin 50000) (Fin 10)) = ''LEGENDARY_MASS_FOLLOWER''"
  using analyzeRatio_verdict_intervals [of "[]" 999 "Fin 10"]
    analyzeRatio_verdict_intervals [of "[]" 4999 "Fin 10"]
    analyzeRatio_verdict_intervals [of "[]" 9999 "Fin 10"]
    analyzeRatio_verdict_intervals [of "[]" 24999 "Fin 10"]
    analyzeRatio_verdict_intervals [of "[]" 49999 "Fin 10"]
    analyzeRatio_verdict_intervals [of "[]" 47832 "Fin 523"]
    analyzeRatio_verdict_intervals [of "[]" 50000 "Fin 10"]
  by simp

text \<open>
  Claim C2: for every input the verdict of \<open>analyzeFollowBack\<close> is the one of the
  reference definition \<open>followBack_reference\<close>; in particular it is \<open>SEEMS_GENUINE\<close>
  whenever \<open>theirFollowing > 1000\<close> does not hold.
\<close>

theorem analyzeFollowBack_refines_reference:
  "FollowBackAnalysis.verdict
      (analyzeFollowBack theyFollowYou theirFollowing youFollowedBack theyStillFollowYou) =
    followBack_reference theyFollowYou theirFollowing youFollowedBack theyStillFollowYou
   \<and> (\<not> js_gt theirFollowing (Fin 1000) \<longrightarrow>
        FollowBackAnalysis.verdict
          (analyzeFollowBack theyFollowYou theirFollowing youFollowedBack theyStillFollowYou) =
        ''SEEMS_GENUINE'')"
  by (simp add: analyzeFollowBack_def followBack_reference_def Let_def)

text \<open>\<open>analyzeFollowBack(true, 500, false, false)\<close> and \<open>analyzeFollowBack(true, 2000, false, false)\<close>.\<close>

theorem analyzeFollowBack_refines_reference_witness:
  "\<not> js_gt (Fin 500) (Fin 1000)
   \<and> FollowBackAnalysis.verdict (analyzeFollowBack True (Fin 500) False False) = ''SEEMS_GENUINE''
   \<and> followBack_reference True (Fin 2000) False False = ''CLASSIC_FOLLOW_UNFOLLOW''
   \<and> FollowBackAnalysis.verdict (analyzeFollowBack True (Fin 2000) False False)
       = ''CLASSIC_FOLLOW_UNFOLLOW''"
  using analyzeFollowBack_refines_reference [of True "Fin 500" False False]
    analyzeFollowBack_refines_reference [of True "Fin 2000" False False]
  by (simp add: js_gt_def followBack_reference_def)

text \<open>
  Claim C4: the \<open>shame\<close> field of the record returned by \<open>analyzeRatio\<close> is the value of
  \<open>following >= 1000\<close>: for a finite \<open>x\<close> it is true exactly when \<open>1000 \<le> x\<close>, it is true
  for \<open>+Infinity\<close> and false for \<open>-Infinity\<close>, \<open>-0\<close> and \<open>NaN\<close>.
\<close>

theorem analyzeRatio_shame:
  fixes following followers :: number
  shows "shame (analyzeRatio ts following followers) = js_ge following (Fin 1000)
    \<and> shame (analyzeRatio ts (Fin x) followers) = (1000 \<le> x)
    \<and> shame (analyzeRatio ts PosInf followers) = True
    \<and> shame (analyzeRatio ts NegInf followers) = False
    \<and> shame (analyzeRatio ts NegZero followers) = False
    \<and> shame (analyzeRatio ts NaN followers) = False"
  by (auto simp add: shame_analyzeRatio js_ge_def)

text \<open>
  Claim C5: when \<open>following\<close> is \<open>NaN\<close>, each of the five threshold comparisons is false
  and \<open>analyzeRatio\<close> returns the verdict of its last branch, \<open>LEGENDARY_MASS_FOLLOWER\<close>.
\<close>

theorem analyzeRatio_NaN_legendary:
  fixes followers :: number
  shows "\<not> js_lt NaN (SUSPICIOUS THRESHOLDS) \<and> \<not> js_lt NaN (LIKELY THRESHOLDS)
    \<and> \<not> js_lt NaN (OBVIOUS THRESHOLDS) \<and> \<not> js_lt NaN (ABSURD THRESHOLDS)
    \<and> \<not> js_lt NaN (LEGENDARY THRESHOLDS)
    \<and> RatioAnalysis.verdict (analyzeRatio ts NaN followers) = ''LEGENDARY_MASS_FOLLOWER''"
  by (simp add: verdict_analyzeRatio)

text \<open>
  Claim C3: when \<open>followers\<close> is zero, \<open>analyzeRatio\<close> does not divide: the ratio is
  \<open>following\<close> itself, formatted with two fraction digits. When \<open>followers > 0\<close> the
  ratio is \<open>following / followers\<close>. Whenever the division is evaluated its divisor is
  greater than zero, so it is never a zero.
\<close>

theorem ratio_never_divides_by_zero:
  fixes following followers :: number
  shows "(followers = Fin 0 \<or> followers = NegZero \<longrightarrow>
        ratio_operand following followers = Plain following
        \<and> ratio_value following followers = following
        \<and> ratio (analyzeRatio ts following followers) = toFixed following 2)
    \<and> (js_gt followers (Fin 0) \<longrightarrow>
        ratio_operand following followers = Division following followers
        \<and> ratio_value following followers = js_div following followers
        \<and> ratio (analyzeRatio ts following followers) = toFixed (js_div following followers) 2)
    \<and> (ratio_operand following followers = Division a b \<longrightarrow>
        js_gt b (Fin 0) \<and> b \<noteq> Fin 0 \<and> b \<noteq> NegZero)"
  by (auto simp add: ratio_analyzeRatio ratio_value_def ratio_operand_def js_gt_def)

lemma toFixed_1500: "toFixed (Fin 1500) 2 = ''1500.00''"
  by code_simp

lemma js_div_47832_523:
  "js_div (Fin 47832) (Fin 523) = Fin (1608928189056417 / 17592186044416)"
  by code_simp

lemma toFixed_47832_523: "toFixed (js_div (Fin 47832) (Fin 523)) 2 = ''91.46''"
  unfolding js_div_47832_523 by code_simp

text \<open>1500 following with no followers, and 47832 following with 523 followers.\<close>

theorem ratio_never_divides_by_zero_witness:
  "(Fin 0 = Fin 0 \<or> Fin 0 = NegZero)
   \<and> ratio_operand (Fin 1500) (Fin 0) = Plain (Fin 1500)
   \<and> ratio (analyzeRatio [] (Fin 1500) (Fin 0)) = ''1500.00''
   \<and> js_gt (Fin 523) (Fin 0)
   \<and> ratio_operand (Fin 47832) (Fin 523) = Division (Fin 47832) (Fin 523)
   \<and> ratio (analyzeRatio [] (Fin 47832) (Fin 523)) = ''91.46''"
  using ratio_never_divides_by_zero [where followers = "Fin 0" and following = "Fin 1500"
      and ts = "[]"]
    ratio_never_divides_by_zero [where followers = "Fin 523" and following = "Fin 47832"
      and ts = "[]" and a = "Fin 47832" and b = "Fin 523"]
  by (simp add: js_gt_def toFixed_1500 toFixed_47832_523 del: toFixed.simps)

text \<open>
  Claim C6: with the random index as an argument, \<open>generateMessage\<close> returns the fixed
  string "You seem normal. This tool isn't for you." for every \<open>following < 1000\<close>,
  whatever the index; for every \<open>following >= 1000\<close> and index 0 to 4 it returns the
  template of that index, filled with the following count as \<open>toLocaleString\<close> renders
  it, and so no string other than these five.
\<close>

theorem generateMessage_templates:
  fixes following :: number
  shows "(js_lt following (Fin 1000) \<longrightarrow>
        generateMessage tls i following = Some ''You seem normal. This tool isn't for you.'')
    \<and> (js_ge following (Fin 1000) \<longrightarrow>
        generateMessage tls 0 following =
          Some (''Following '' @ tls following
                @ '' accounts? That's not networking, that's hoarding.'')
        \<and> generateMessage tls 1 following =
          Some (tls following @ '' follows. Do you even remember who they are?'')
        \<and> generateMessage tls 2 following =
          Some (''With '' @ tls following @ '' follows, your feed must be pure noise.'')
        \<and> generateMessage tls 3 following =
          Some (tls following @ ''. That's not a following list, that's a phone book.'')
        \<and> generateMessage tls 4 following =
          Some (''Imagine clicking follow '' @ tls following
                @ '' times. The dedication to mediocrity.'')
        \<and> (i < 5 \<longrightarrow> generateMessage tls i following \<in>
              {generateMessage tls 0 following, generateMessage tls 1 following,
               generateMessage tls 2 following, generateMessage tls 3 following,
               generateMessage tls 4 following}))"
proof -
  have five: "i = 0 \<or> i = 1 \<or> i = 2 \<or> i = 3 \<or> i = 4" if "i < 5"
    using that by arith
  show ?thesis
    using five by (auto simp add: generateMessage_def js_ge_def Let_def)
qed

text \<open>500 and 2000 following, on a host that renders 2000 as "2,000".\<close>

theorem generateMessage_templates_witness:
  "js_lt (Fin 500) (Fin 1000)
   \<and> generateMessage (\<lambda>n. ''500'') 3 (Fin 500) = Some ''You seem normal. This tool isn't for you.''
   \<and> js_ge (Fin 2000) (Fin 1000)
   \<and> generateMessage (\<lambda>n. ''2,000'') 1 (Fin 2000)
       = Some ''2,000 follows. Do you even remember who they are?''
   \<and> (1::nat) < 5"
  using generateMessage_templates [where following = "Fin 500" and tls = "\<lambda>n. ''500''" and i = 3]
    generateMessage_templates [where following = "Fin 2000" and tls = "\<lambda>n. ''2,000''" and i = 1]
  by (simp add: js_ge_def)

subsection \<open>The shape of the ratio string\<close>

lemma is_digit_digit_char: "d < 10 \<Longrightarrow> is_digit (digit_char d)"
proof -
  assume "d < 10"
  then have "nat d < length ''0123456789''" by simp
  then have "''0123456789'' ! nat d \<in> set ''0123456789''" by (rule nth_mem)
  then show ?thesis by (simp only: is_digit_def digit_char_def)
qed

lemma digits_of_all_digits: "c \<in> set (digits_of n) \<Longrightarrow> is_digit c"
proof (induction n arbitrary: c rule: digits_of.induct)
  case (1 n)
  show ?case
  proof (cases "n < 10")
    case True
    with "1.prems" have "c = digit_char n" by (subst (asm) digits_of.simps) simp
    with True show ?thesis by (simp add: is_digit_digit_char)
  next
    case False
    with "1.prems" have "c \<in> set (digits_of (n div 10)) \<or> c = digit_char (n mod 10)"
      by (subst (asm) digits_of.simps) auto
    then show ?thesis
    proof
      assume "c \<in> set (digits_of (n div 10))"
      with False "1.IH" show ?thesis by blast
    next
      assume "c = digit_char (n mod 10)"
      then show ?thesis by (simp add: is_digit_digit_char)
    qed
  qed
qed

lemma not_digit_point: "\<not> is_digit CHR ''.''"
  by (simp add: is_digit_def)

lemma two_fraction_digitsI:
  "is_digit d1 \<Longrightarrow> is_digit d2 \<Longrightarrow> CHR ''.'' \<notin> set pre \<Longrightarrow>
   two_fraction_digits (pre @ [CHR ''.'', d1, d2])"
  by (simp add: two_fraction_digits_def)

lemma split_last_two:
  assumes "2 \<le> length m"
  shows "\<exists>d1 d2. drop (length m - 2) m = [d1, d2]"
proof -
  define t where "t = drop (length m - 2) m"
  have len: "length t = 2" using assms by (simp add: t_def)
  then obtain d1 r where t: "t = d1 # r" by (cases t) auto
  with len obtain d2 where "r = [d2]" by (cases r) auto
  with t show ?thesis by (simp add: t_def)
qed

lemma fixed_digits_shape:
  assumes "q < 10 ^ 21"
  shows "\<exists>ip d1 d2. fixed_digits q 2 = ip @ [CHR ''.'', d1, d2]
           \<and> is_digit d1 \<and> is_digit d2 \<and> CHR ''.'' \<notin> set ip"
proof -
  define m where "m = digits_of \<lfloor>q * 10 ^ 2 + 1 / 2\<rfloor>"
  define m' where "m' = (if length m \<le> 2 then replicate (2 + 1 - length m) CHR ''0'' @ m else m)"
  have fd: "fixed_digits q 2 = take (length m' - 2) m' @ ''.'' @ drop (length m' - 2) m'"
    using assms by (simp add: fixed_digits_def m_def m'_def Let_def)
  have zero: "is_digit CHR ''0''" by (simp add: is_digit_def)
  have digits: "is_digit c" if "c \<in> set m'" for c
    using that zero digits_of_all_digits [of c] by (auto simp add: m'_def m_def split: if_splits)
  have len: "2 \<le> length m'" by (simp add: m'_def)
  from split_last_two [OF len] obtain d1 d2 where d: "drop (length m' - 2) m' = [d1, d2]"
    by blast
  have "set (drop (length m' - 2) m') \<subseteq> set m'" by (rule set_drop_subset)
  with d digits have dd: "is_digit d1" "is_digit d2" by auto
  have "set (take (length m' - 2) m') \<subseteq> set m'" by (rule set_take_subset)
  with digits not_digit_point have "CHR ''.'' \<notin> set (take (length m' - 2) m')" by blast
  with fd d dd show ?thesis by auto
qed

lemma toFixed_two_fraction_digits:
  assumes "\<bar>q\<bar> < 10 ^ 21"
  shows "two_fraction_digits (toFixed (Fin q) 2)"
proof (cases "q < 0")
  case True
  then have "- q < 10 ^ 21" using assms by simp
  from fixed_digits_shape [OF this] obtain ip d1 d2 where
    "fixed_digits (- q) 2 = ip @ [CHR ''.'', d1, d2]" "is_digit d1" "is_digit d2"
    "CHR ''.'' \<notin> set ip" by blast
  then have "toFixed (Fin q) 2 = (''-'' @ ip) @ [CHR ''.'', d1, d2]"
    "CHR ''.'' \<notin> set (''-'' @ ip)" using True by simp_all
  with \<open>is_digit d1\<close> \<open>is_digit d2\<close> show ?thesis
    using two_fraction_digitsI [of d1 d2 "''-'' @ ip"] by simp
next
  case False
  then have "q < 10 ^ 21" using assms by simp
  from fixed_digits_shape [OF this] obtain ip d1 d2 where
    "fixed_digits q 2 = ip @ [CHR ''.'', d1, d2]" "is_digit d1" "is_digit d2"
    "CHR ''.'' \<notin> set ip" by blast
  then show ?thesis using False by (simp add: two_fraction_digitsI)
qed

lemma round_half_even_nonneg: "0 \<le> x \<Longrightarrow> 0 \<le> round_half_even x"
  by (simp add: round_half_even_def Let_def)

lemma zpow_pos: "0 < b \<Longrightarrow> 0 < zpow b i"
  by (simp add: zpow_def)

lemma nearest_double_nonneg:
  assumes "0 \<le> q"
  shows "0 \<le> nearest_double q"
proof -
  define e where "e = max (floor_log2 q) (- 1022) - 52"
  have "0 < zpow 2 e" by (simp add: zpow_pos)
  then have "0 \<le> q / zpow 2 e" using assms by simp
  then have "0 \<le> round_half_even (q / zpow 2 e)" by (rule round_half_even_nonneg)
  with \<open>0 < zpow 2 e\<close> show ?thesis
    by (simp add: nearest_double_def e_def Let_def)
qed

lemma to_double_nonneg_cases:
  assumes "0 \<le> q"
  shows "to_double False q = PosInf \<or> (\<exists>v\<ge>0. to_double False q = Fin v)"
  using nearest_double_nonneg [OF assms]
  by (auto simp add: to_double_def Let_def infinity_def zero_def)

lemma ratio_value_nonneg_cases:
  assumes "0 \<le> a" "0 \<le> b"
  shows "ratio_value (Fin a) (Fin b) = PosInf \<or> (\<exists>v\<ge>0. ratio_value (Fin a) (Fin b) = Fin v)"
proof (cases "0 < b")
  case True
  with assms have "ratio_value (Fin a) (Fin b) = to_double False (a / b)"
    by (simp add: ratio_value_def ratio_operand_def js_gt_def js_div_def)
  moreover have "0 \<le> a / b" using assms by simp
  ultimately show ?thesis using to_double_nonneg_cases by simp
next
  case False
  then have "ratio_value (Fin a) (Fin b) = Fin a"
    by (simp add: ratio_value_def ratio_operand_def js_gt_def)
  with assms show ?thesis by simp
qed

text \<open>
  Claim C7, amended: for every non-negative pair \<open>(following, followers)\<close> whose ratio is
  below \<open>10 ^ 21\<close>, the \<open>ratio\<close> field of the record returned by \<open>analyzeRatio\<close> is a
  string with exactly two digits after its decimal point.
\<close>

theorem ratio_two_fraction_digits:
  assumes "0 \<le> a" and "0 \<le> b"
    and "js_lt (ratio_value (Fin a) (Fin b)) (Fin (10 ^ 21))"
  shows "two_fraction_digits (ratio (analyzeRatio ts (Fin a) (Fin b)))"
proof -
  from ratio_value_nonneg_cases [OF assms(1,2)] assms(3)
  obtain v where v: "ratio_value (Fin a) (Fin b) = Fin v" "0 \<le> v" "v < 10 ^ 21"
    by auto
  then have "\<bar>v\<bar> < 10 ^ 21" by simp
  then have "two_fraction_digits (toFixed (Fin v) 2)" by (rule toFixed_two_fraction_digits)
  with v(1) show ?thesis by (simp only: ratio_analyzeRatio)
qed

text \<open>47832 following and 523 followers: the ratio string is "91.46".\<close>

lemma ratio_47832_523_below: "js_lt (ratio_value (Fin 47832) (Fin 523)) (Fin (10 ^ 21))"
  by (simp add: ratio_value_def ratio_operand_def js_gt_def js_div_47832_523)

lemma ratio_47832_523: "ratio (analyzeRatio [] (Fin 47832) (Fin 523)) = ''91.46''"
  by (simp add: ratio_analyzeRatio ratio_value_def ratio_operand_def js_gt_def
      toFixed_47832_523 del: toFixed.simps)

theorem ratio_two_fraction_digits_witness:
  "(0::rat) \<le> 47832 \<and> (0::rat) \<le> 523
   \<and> js_lt (ratio_value (Fin 47832) (Fin 523)) (Fin (10 ^ 21))
   \<and> ratio (analyzeRatio [] (Fin 47832) (Fin 523)) = ''91.46''
   \<and> two_fraction_digits ''91.46''"
  using ratio_two_fraction_digits [of 47832 523 "[]"] ratio_47832_523_below ratio_47832_523
  by simp

text \<open>
  Without the bound the property fails: \<open>10 ^ 21\<close> is a double, and with no followers the
  ratio is \<open>10 ^ 21\<close> itself, which \<open>toFixed\<close> writes in exponent notation.
\<close>

lemma ratio_1e21: "ratio (analyzeRatio [] (Fin (10 ^ 21)) (Fin 0)) = ''1e+21''"
  by code_simp

theorem ratio_two_fraction_digits_counterexample:
  "(0::rat) \<le> 10 ^ 21 \<and> (0::rat) \<le> 0
   \<and> ratio (analyzeRatio [] (Fin (10 ^ 21)) (Fin 0)) = ''1e+21''
   \<and> \<not> two_fraction_digits (ratio (analyzeRatio [] (Fin (10 ^ 21)) (Fin 0)))"
  using ratio_1e21 by (simp add: two_fraction_digits_def)

subsection \<open>The command line\<close>

text \<open>
  Claim C8: with fewer than two arguments the command-line block writes the usage text
  to standard output and exits with status 1; with two or more arguments it exits with
  status 0 and its first fifteen lines are the report on the first two arguments.
\<close>

theorem cli_exit_status:
  "(length args < 2 \<longrightarrow>
      cli rt args =
        ([''Usage: node index.js <following> <followers>'',
          ''Example: node index.js 47832 523'',
          '''',
          ''Or just accept that if you're running this, you already know.''], 1))
   \<and> (2 \<le> length args \<longrightarrow>
      snd (cli rt args) = 0
      \<and> take 15 (fst (cli rt args)) =
        ['''',
         replicate 50 CHR ''='',
         ''MASS FOLLOW ANALYSIS REPORT'',
         replicate 50 CHR ''='',
         '''',
         ''Following: '' @ toLocaleString rt (Number rt (args ! 0)),
         ''Followers: '' @ toLocaleString rt (Number rt (args ! 1)),
         ''Ratio: '' @ ratio (analyzeRatio (now rt) (Number rt (args ! 0)) (Number rt (args ! 1))),
         '''',
         ''Verdict: ''
           @ RatioAnalysis.verdict
               (analyzeRatio (now rt) (Number rt (args ! 0)) (Number rt (args ! 1))),
         RatioAnalysis.description
           (analyzeRatio (now rt) (Number rt (args ! 0)) (Number rt (args ! 1))),
         '''',
         ''Recommendation: ''
           @ RatioAnalysis.recommendation
               (analyzeRatio (now rt) (Number rt (args ! 0)) (Number rt (args ! 1))),
         '''',
         replicate 50 CHR ''=''])"
  by (simp add: cli_def Let_def)

text \<open>
  Claim C10: for every \<open>following\<close> other than \<open>NaN\<close>, and any followers, \<open>shame\<close> is
  false exactly when the verdict is \<open>NORMAL\<close>. For \<open>NaN\<close> the verdict is
  \<open>LEGENDARY_MASS_FOLLOWER\<close> and \<open>shame\<close> is false all the same, so that the command line
  ends after the report, without a line from \<open>generateMessage\<close>.
\<close>

theorem shame_iff_not_normal:
  fixes following followers :: number
  shows "(following \<noteq> NaN \<longrightarrow>
        (shame (analyzeRatio ts following followers) = False
         \<longleftrightarrow> RatioAnalysis.verdict (analyzeRatio ts following followers) = ''NORMAL''))
    \<and> RatioAnalysis.verdict (analyzeRatio ts NaN followers) = ''LEGENDARY_MASS_FOLLOWER''
    \<and> shame (analyzeRatio ts NaN followers) = False
    \<and> (2 \<le> length args \<and> Number rt (args ! 0) = NaN \<longrightarrow>
        cli rt args =
          (['''',
            replicate 50 CHR ''='',
            ''MASS FOLLOW ANALYSIS REPORT'',
            replicate 50 CHR ''='',
            '''',
            ''Following: '' @ toLocaleString rt NaN,
            ''Followers: '' @ toLocaleString rt (Number rt (args ! 1)),
            ''Ratio: '' @ toFixed (ratio_value NaN (Number rt (args ! 1))) 2,
            '''',
            ''Verdict: LEGENDARY_MASS_FOLLOWER'',
            ''You've achieved something. Not something good, but something.'',
            '''',
            ''Recommendation: Frame this. Put it on your wall. Tell your grandchildren.'',
            '''',
            replicate 50 CHR ''=''], 0))"
proof -
  have iff: "shame (analyzeRatio ts following followers) = False
      \<longleftrightarrow> RatioAnalysis.verdict (analyzeRatio ts following followers) = ''NORMAL''"
    if "following \<noteq> NaN"
    using that by (cases following) (simp_all add: shame_analyzeRatio verdict_analyzeRatio js_ge_def)
  have nan: "RatioAnalysis.verdict (analyzeRatio ts NaN followers) = ''LEGENDARY_MASS_FOLLOWER''"
    "shame (analyzeRatio ts NaN followers) = False"
    by (simp_all add: shame_analyzeRatio verdict_analyzeRatio js_ge_def)
  have out: "cli rt args =
          (['''',
            replicate 50 CHR ''='',
            ''MASS FOLLOW ANALYSIS REPORT'',
            replicate 50 CHR ''='',
            '''',
            ''Following: '' @ toLocaleString rt NaN,
            ''Followers: '' @ toLocaleString rt (Number rt (args ! 1)),
            ''Ratio: '' @ toFixed (ratio_value NaN (Number rt (args ! 1))) 2,
            '''',
            ''Verdict: LEGENDARY_MASS_FOLLOWER'',
            ''You've achieved something. Not something good, but something.'',
            '''',
            ''Recommendation: Frame this. Put it on your wall. Tell your grandchildren.'',
            '''',
            replicate 50 CHR ''=''], 0)"
    if "2 \<le> length args" "Number rt (args ! 0) = NaN"
    using that by (simp add: cli_def Let_def analyzeRatio_def js_ge_def)
  from iff nan out show ?thesis by blast
qed

text \<open>No argument, one argument, and the arguments 47832 and 523.\<close>

theorem cli_exit_status_witness:
  "length ([] :: string list) < 2
   \<and> snd (cli \<lparr>Number = (\<lambda>s. if s = ''47832'' then Fin 47832 else Fin 523),
                 toLocaleString = (\<lambda>n. if n = Fin 47832 then ''47,832'' else ''523''),
                 now = ''2026-11-02T09:30:00.000Z'', random_index = 3\<rparr> []) = 1
   \<and> length [''47832''] < 2
   \<and> snd (cli \<lparr>Number = (\<lambda>s. if s = ''47832'' then Fin 47832 else Fin 523),
                 toLocaleString = (\<lambda>n. if n = Fin 47832 then ''47,832'' else ''523''),
                 now = ''2026-11-02T09:30:00.000Z'', random_index = 3\<rparr> [''47832'']) = 1
   \<and> 2 \<le> length [''47832'', ''523'']
   \<and> cli \<lparr>Number = (\<lambda>s. if s = ''47832'' then Fin 47832 else Fin 523),
            toLocaleString = (\<lambda>n. if n = Fin 47832 then ''47,832'' else ''523''),
            now = ''2026-11-02T09:30:00.000Z'', random_index = 3\<rparr> [''47832'', ''523'']
       = (['''',
           ''=================================================='',
           ''MASS FOLLOW ANALYSIS REPORT'',
           ''=================================================='',
           '''',
           ''Following: 47,832'',
           ''Followers: 523'',
           ''Ratio: 91.46'',
           '''',
           ''Verdict: EGREGIOUS_MASS_FOLLOWER'',
           ''At what cost? FOR WHAT?'',
           '''',
           ''Recommendation: Log off. Forever. Please.'',
           '''',
           ''=================================================='',
           '''',
           ''47,832. That's not a following list, that's a phone book.''], 0)"
proof -
  let ?rt = "\<lparr>Number = (\<lambda>s. if s = ''47832'' then Fin 47832 else Fin 523),
             toLocaleString = (\<lambda>n. if n = Fin 47832 then ''47,832'' else ''523''),
             now = ''2026-11-02T09:30:00.000Z'', random_index = 3\<rparr>"
  have sep: "replicate 50 CHR ''='' = ''==================================================''"
    by code_simp
  have "snd (cli ?rt []) = 1" "snd (cli ?rt [''47832'']) = 1"
    using cli_exit_status [of "[]" ?rt] cli_exit_status [of "[''47832'']" ?rt] by simp_all
  moreover have "cli ?rt [''47832'', ''523''] =
      (['''',
           ''=================================================='',
           ''MASS FOLLOW ANALYSIS REPORT'',
           ''=================================================='',
           '''',
           ''Following: 47,832'',
           ''Followers: 523'',
           ''Ratio: 91.46'',
           '''',
           ''Verdict: EGREGIOUS_MASS_FOLLOWER'',
           ''At what cost? FOR WHAT?'',
           '''',
           ''Recommendation: Log off. Forever. Please.'',
           '''',
           ''=================================================='',
           '''',
           ''47,832. That's not a following list, that's a phone book.''], 0)"
    by (simp add: cli_def Let_def analyzeRatio_def js_ge_def generateMessage_def console_log_def
        sep ratio_value_def ratio_operand_def js_gt_def toFixed_47832_523 del: toFixed.simps)
  ultimately show ?thesis by simp
qed

text \<open>500 and 47832 following, and a first argument that is not a number.\<close>

theorem shame_iff_not_normal_witness:
  "Fin 500 \<noteq> NaN
   \<and> shame (analyzeRatio [] (Fin 500) (Fin 10)) = False
   \<and> RatioAnalysis.verdict (analyzeRatio [] (Fin 500) (Fin 10)) = ''NORMAL''
   \<and> shame (analyzeRatio [] (Fin 47832) (Fin 523)) = True
   \<and> RatioAnalysis.verdict (analyzeRatio [] (Fin 47832) (Fin 523)) \<noteq> ''NORMAL''
   \<and> 2 \<le> length [''many'', ''523'']
   \<and> Number \<lparr>Number = (\<lambda>s. if s = ''523'' then Fin 523 else NaN),
               toLocaleString = (\<lambda>n. if n = NaN then ''NaN'' else ''523''),
               now = ''2026-11-02T09:30:00.000Z'', random_index = 3\<rparr>
        ([''many'', ''523''] ! 0) = NaN
   \<and> cli \<lparr>Number = (\<lambda>s. if s = ''523'' then Fin 523 else NaN),
            toLocaleString = (\<lambda>n. if n = NaN then ''NaN'' else ''523''),
            now = ''2026-11-02T09:30:00.000Z'', random_index = 3\<rparr> [''many'', ''523'']
       = (['''',
           ''=================================================='',
           ''MASS FOLLOW ANALYSIS REPORT'',
           ''=================================================='',
           '''',
           ''Following: NaN'',
           ''Followers: 523'',
           ''Ratio: NaN'',
           '''',
           ''Verdict: LEGENDARY_MASS_FOLLOWER'',
           ''You've achieved something. Not something good, but something.'',
           '''',
           ''Recommendation: Frame this. Put it on your wall. Tell your grandchildren.'',
           '''',
           ''==================================================''], 0)"
proof -
  let ?rt = "\<lparr>Number = (\<lambda>s. if s = ''523'' then Fin 523 else NaN),
             toLocaleString = (\<lambda>n. if n = NaN then ''NaN'' else ''523''),
             now = ''2026-11-02T09:30:00.000Z'', random_index = 3\<rparr>"
  have sep: "replicate 50 CHR ''='' = ''==================================================''"
    by code_simp
  have ratio: "toFixed (ratio_value NaN (Fin 523)) 2 = ''NaN''"
    by (simp add: ratio_value_def ratio_operand_def js_gt_def js_div_def)
  show ?thesis
    using shame_iff_not_normal [where following = "Fin 500" and followers = "Fin 10"
        and ts = "[]" and args = "[''many'', ''523'']" and rt = ?rt]
      shame_iff_not_normal [where following = "Fin 47832" and followers = "Fin 523"
        and ts = "[]" and args = "[''many'', ''523'']" and rt = ?rt]
    by (simp add: sep ratio shame_analyzeRatio verdict_analyzeRatio js_ge_def)
qed

subsection \<open>The wall of shame\<close>

text \<open>
  Claim C9: \<open>isOnWallOfShame\<close> returns false for every user name, the empty one included,
  and the exported list \<open>WALL_OF_SHAME\<close> is the empty sequence.
\<close>

theorem isOnWallOfShame_always_false:
  "isOnWallOfShame username = False \<and> isOnWallOfShame [] = False \<and> WALL_OF_SHAME = []"
  by (simp add: isOnWallOfShame_def WALL_OF_SHAME_def)

end
